theory Spec2Isabelle
  imports Main "HOL-Library.Sublist"
begin

unbundle bit_operations_syntax

section \<open>Python values, errors and string operations\<close>

text \<open>
  The two modules are Python. The values that flow through them (path steps, connection
  options, error codes) are integers, booleans, strings and \<^verbatim>\<open>None\<close>; Python's
  integers are unbounded, so they are \<^typ>\<open>int\<close>.
\<close>

datatype py_value = PyInt int | PyBool bool | PyStr string | PyNone

text \<open>
  The exceptions the modelled code can raise. \<open>ConfigurationError\<close> is the error the
  option coercion reports for a malformed value.
\<close>

datatype py_error = TypeError | ValueError | AttributeError | ImportError | ConfigurationError

text \<open>\<^verbatim>\<open>isinstance(value, int)\<close>: \<^verbatim>\<open>bool\<close> is a subclass of \<^verbatim>\<open>int\<close>.\<close>

fun isinstance_int :: "py_value \<Rightarrow> bool" where
  "isinstance_int (PyInt i) = True"
| "isinstance_int (PyBool b) = True"
| "isinstance_int (PyStr s) = False"
| "isinstance_int PyNone = False"

subsection \<open>Decimal rendering: \<^verbatim>\<open>str\<close> of an integer\<close>

definition digit_char :: "nat \<Rightarrow> char" where
  "digit_char d = ''0123456789'' ! d"

fun str_nat :: "nat \<Rightarrow> string" where
  "str_nat n = (if n < 10 then [digit_char n] else str_nat (n div 10) @ [digit_char (n mod 10)])"

declare str_nat.simps [simp del]

definition str_int :: "int \<Rightarrow> string" where
  "str_int i = (if i < 0 then CHR ''-'' # str_nat (nat (- i)) else str_nat (nat i))"

text \<open>\<^verbatim>\<open>str(v)\<close>, the conversion that \<^verbatim>\<open>%s\<close> applies to its argument.\<close>

fun py_str :: "py_value \<Rightarrow> string" where
  "py_str (PyInt i) = str_int i"
| "py_str (PyBool b) = (if b then ''True'' else ''False'')"
| "py_str (PyStr s) = s"
| "py_str PyNone = ''None''"

subsection \<open>The \<^verbatim>\<open>%\<close> string-formatting operator\<close>

text \<open>
  \<^verbatim>\<open>fmt % args\<close> scans the format once, left to right. The sources use the conversion
  \<^verbatim>\<open>%s\<close> only; \<^verbatim>\<open>%%\<close> is a literal percent sign. The arguments are given already
  converted by \<^verbatim>\<open>str\<close>; the inserted text is not scanned again. Too few or too many
  arguments raise \<^verbatim>\<open>TypeError\<close>; a lone \<^verbatim>\<open>%\<close> at the end, or a conversion this
  model does not cover, is a \<^verbatim>\<open>ValueError\<close>.
\<close>

fun percent_format :: "string \<Rightarrow> string list \<Rightarrow> py_error + string" where
  "percent_format [] args = (if args = [] then Inr [] else Inl TypeError)"
| "percent_format [c] args =
     (if c = CHR ''%'' then Inl ValueError
      else if args = [] then Inr [c] else Inl TypeError)"
| "percent_format (c # d # fs) args =
     (if c \<noteq> CHR ''%'' then
        (case percent_format (d # fs) args of Inl e \<Rightarrow> Inl e | Inr r \<Rightarrow> Inr (c # r))
      else if d = CHR ''%'' then
        (case percent_format fs args of Inl e \<Rightarrow> Inl e | Inr r \<Rightarrow> Inr (CHR ''%'' # r))
      else if d = CHR ''s'' then
        (case args of
           [] \<Rightarrow> Inl TypeError
         | a # rest \<Rightarrow>
             (case percent_format fs rest of Inl e \<Rightarrow> Inl e | Inr r \<Rightarrow> Inr (a @ r)))
      else Inl ValueError)"

text \<open>\<^verbatim>\<open>fmt % value\<close> with one argument that is not a tuple.\<close>

definition py_mod :: "string \<Rightarrow> py_value \<Rightarrow> py_error + string" where
  "py_mod fmt v = percent_format fmt [py_str v]"

text \<open>A list comprehension whose element expression may raise: the first error wins.\<close>

fun map_result :: "('a \<Rightarrow> py_error + 'b) \<Rightarrow> 'a list \<Rightarrow> py_error + 'b list" where
  "map_result f [] = Inr []"
| "map_result f (x # xs) =
     (case f x of
        Inl e \<Rightarrow> Inl e
      | Inr y \<Rightarrow> (case map_result f xs of Inl e \<Rightarrow> Inl e | Inr ys \<Rightarrow> Inr (y # ys)))"

section \<open>dialects/mysql/json.py\<close>

text \<open>
  \<^verbatim>\<open>JSONIndexType._format_value\<close>:
  \<^verbatim>\<open>if isinstance(value, int): value = "$[%s]" % value
  else: value = '$."%s"' % value\<close>
\<close>

definition JSONIndexType_format_value :: "py_value \<Rightarrow> py_error + string" where
  \<open>JSONIndexType_format_value v =
     (if isinstance_int v then py_mod ''$[%s]'' v else py_mod ''$."%s"'' v)\<close>

text \<open>
  \<^verbatim>\<open>JSONPathType._format_value\<close>:
  \<^verbatim>\<open>"$%s" % ("".join(["[%s]" % elem if isinstance(elem, int) else '."%s"' % elem
                        for elem in value]))\<close>
\<close>

definition JSONPathType_format_elem :: "py_value \<Rightarrow> py_error + string" where
  \<open>JSONPathType_format_elem elem =
     (if isinstance_int elem then py_mod ''[%s]'' elem else py_mod ''."%s"'' elem)\<close>

definition JSONPathType_format_value :: "py_value list \<Rightarrow> py_error + string" where
  "JSONPathType_format_value v =
     (case map_result JSONPathType_format_elem v of
        Inl e \<Rightarrow> Inl e
      | Inr parts \<Rightarrow> py_mod ''$%s'' (PyStr (concat parts)))"

subsection \<open>The specification's path model\<close>

text \<open>
  A path step is an integer index or a string key; a path is a sequence of steps.
  \<open>step_fragment\<close> is the text the specification gives for one step.
\<close>

datatype path_step = Index int | Key string

fun step_value :: "path_step \<Rightarrow> py_value" where
  "step_value (Index i) = PyInt i"
| "step_value (Key k) = PyStr k"

fun step_fragment :: "path_step \<Rightarrow> string" where
  \<open>step_fragment (Index i) = ''['' @ str_int i @ '']''\<close>
| \<open>step_fragment (Key k) = ''."'' @ k @ ''"''\<close>

section \<open>dialects/mysql/mysqlconnector.py\<close>

subsection \<open>String operations used by the module\<close>

text \<open>
  \<^verbatim>\<open>s.replace(old, new)\<close> replaces the occurrences of \<open>old\<close> found scanning left to
  right, continuing after each replaced occurrence. For an empty \<open>old\<close> Python inserts
  \<open>new\<close> before every character and at the end.
\<close>

fun replace_from :: "string \<Rightarrow> string \<Rightarrow> string \<Rightarrow> string" where
  "replace_from old new [] = []"
| "replace_from old new (c # cs) =
     (if prefix old (c # cs) then new @ replace_from old new (drop (length old - 1) cs)
      else c # replace_from old new cs)"

definition py_replace :: "string \<Rightarrow> string \<Rightarrow> string \<Rightarrow> string" where
  "py_replace old new s =
     (if old = [] then new @ concat (map (\<lambda>c. c # new) s) else replace_from old new s)"

text \<open>\<^verbatim>\<open>sub in s\<close> on strings: \<open>sub\<close> occurs in \<open>s\<close> as a contiguous run.\<close>

fun str_contains :: "string \<Rightarrow> string \<Rightarrow> bool" where
  "str_contains sub [] = (sub = [])"
| "str_contains sub (c # cs) = (prefix sub (c # cs) \<or> str_contains sub cs)"

text \<open>
  \<^verbatim>\<open>x in (n1, n2, ...)\<close> compares with \<^verbatim>\<open>==\<close>: an integer equals itself, \<^verbatim>\<open>True\<close>
  and \<^verbatim>\<open>False\<close> equal 1 and 0, a string or \<^verbatim>\<open>None\<close> equals no integer.
\<close>

fun py_in :: "py_value \<Rightarrow> int list \<Rightarrow> bool" where
  "py_in (PyInt n) xs = (n \<in> set xs)"
| "py_in (PyBool b) xs = ((if b then 1 else 0) \<in> set xs)"
| "py_in (PyStr s) xs = False"
| "py_in PyNone xs = False"

text \<open>\<^verbatim>\<open>v |= n\<close> for an integer \<open>n\<close>: defined on integers and booleans only.\<close>

fun py_or :: "py_value \<Rightarrow> int \<Rightarrow> py_error + py_value" where
  "py_or (PyInt a) b = Inr (PyInt (a OR b))"
| "py_or (PyBool a) b = Inr (PyInt ((if a then 1 else 0) OR b))"
| "py_or (PyStr s) b = Inl TypeError"
| "py_or PyNone b = Inl TypeError"

subsection \<open>\<^verbatim>\<open>MySQLCompiler_mysqlconnector\<close>\<close>

text \<open>
  \<^verbatim>\<open>visit_mod_binary\<close> returns
  \<^verbatim>\<open>self.process(binary.left, **kw) + " % " + self.process(binary.right, **kw)\<close>.
  The compiler's \<^verbatim>\<open>process\<close> belongs to the generic compiler and is a parameter; it
  renders an operand or raises.
\<close>

record 'e binary_expression =
  left :: 'e
  right :: 'e

definition visit_mod_binary ::
  "('e \<Rightarrow> py_error + string) \<Rightarrow> 'e binary_expression \<Rightarrow> py_error + string" where
  "visit_mod_binary process binary =
     (case process (left binary) of
        Inl e \<Rightarrow> Inl e
      | Inr l \<Rightarrow>
          (case process (right binary) of
             Inl e \<Rightarrow> Inl e
           | Inr r \<Rightarrow> Inr (l @ '' % '' @ r)))"

subsection \<open>\<^verbatim>\<open>MySQLIdentifierPreparer_mysqlconnector\<close>\<close>

text \<open>
  The preparer's \<^verbatim>\<open>escape_quote\<close> and \<^verbatim>\<open>escape_to_quote\<close> are set by the base
  class, which is not part of these sources; they are fields of the preparer here.
  The property \<^verbatim>\<open>_double_percents\<close> has a getter that returns \<^verbatim>\<open>False\<close> and a
  setter whose body is \<^verbatim>\<open>pass\<close>.
\<close>

record identifier_preparer =
  escape_quote :: string
  escape_to_quote :: string

definition double_percents :: "identifier_preparer \<Rightarrow> bool" where
  "double_percents self = False"

definition set_double_percents :: "identifier_preparer \<Rightarrow> py_value \<Rightarrow> identifier_preparer" where
  "set_double_percents self v = self"

definition escape_identifier :: "identifier_preparer \<Rightarrow> string \<Rightarrow> string" where
  "escape_identifier self v = py_replace (escape_quote self) (escape_to_quote self) v"

subsection \<open>\<^verbatim>\<open>MySQLDialect_mysqlconnector.is_disconnect\<close>\<close>

text \<open>
  A class is identified by its name. The driver module \<^verbatim>\<open>self.dbapi\<close> provides the two
  exception classes; the dialect holds the module, or \<^verbatim>\<open>None\<close> before it is loaded.
  An exception object is described by what \<^verbatim>\<open>is_disconnect\<close> reads of it: the classes
  it is an instance of, its \<^verbatim>\<open>errno\<close> attribute (which an object may lack) and the
  outcome of \<^verbatim>\<open>str(e)\<close> (which may raise).
\<close>

type_synonym py_class = string

record dbapi_module =
  OperationalError :: py_class
  InterfaceError :: py_class

record dialect =
  dbapi :: "dbapi_module option"

record py_exception =
  mro :: "py_class list"
  errno :: "py_value option"
  str_result :: "py_error + string"

definition isinstance :: "py_exception \<Rightarrow> py_class list \<Rightarrow> bool" where
  "isinstance e classes = (\<exists>c \<in> set classes. c \<in> set (mro e))"

definition errnos :: "int list" where
  "errnos = [2006, 2013, 2014, 2045, 2055, 2048]"

text \<open>
  \<^verbatim>\<open>e.errno in errnos or "MySQL Connection not available." in str(e)
  or "Connection to MySQL is not available" in str(e)\<close>, evaluated left to right with
  short circuit, inside \<^verbatim>\<open>if isinstance(e, exceptions)\<close>.
\<close>

definition is_disconnect :: "dialect \<Rightarrow> py_exception \<Rightarrow> py_error + bool" where
  "is_disconnect self e =
     (case dbapi self of
        None \<Rightarrow> Inl AttributeError
      | Some m \<Rightarrow>
          if isinstance e [OperationalError m, InterfaceError m] then
            (case errno e of
               None \<Rightarrow> Inl AttributeError
             | Some code \<Rightarrow>
                 if py_in code errnos then Inr True
                 else
                   (case str_result e of
                      Inl err \<Rightarrow> Inl err
                    | Inr msg \<Rightarrow>
                        if str_contains ''MySQL Connection not available.'' msg then Inr True
                        else Inr (str_contains ''Connection to MySQL is not available'' msg)))
          else Inr False)"

subsection \<open>\<^verbatim>\<open>util.coerce_kw_type\<close>\<close>

text \<open>
  The module \<^verbatim>\<open>sqlalchemy.util\<close> is not among the sources, so the helper is modelled
  from the specification: for a declared key, ``coerce the value to its declared type
  (boolean: recognizes common truthy/falsy string forms; integer: numeric parse; fails
  with a configuration error on unparseable input for a declared key)''; the input
  holds ``typically strings from a URL query string'' and ``already-typed keys''.
  The third argument of a call is the type \<^verbatim>\<open>bool\<close> or \<^verbatim>\<open>int\<close>.
\<close>

datatype kw_type = KwBool | KwInt

text \<open>
  Modelled from the spec: the ``common truthy/falsy string forms'' that the boolean
  coercion of \<^verbatim>\<open>util.coerce_kw_type\<close> recognizes. The specification does not list
  them; these are the two tables taken here.
\<close>

definition truthy_forms :: "string list" where
  "truthy_forms = [''true'', ''yes'', ''on'', ''y'', ''t'', ''1'']"

definition falsy_forms :: "string list" where
  "falsy_forms = [''false'', ''no'', ''off'', ''n'', ''f'', ''0'']"

text \<open>
  Modelled from the spec: the boolean coercion of \<^verbatim>\<open>util.coerce_kw_type\<close>, which
  ``recognizes common truthy/falsy string forms''; any other string is unparseable.
\<close>

definition asbool :: "string \<Rightarrow> bool option" where
  "asbool s =
     (if s \<in> set truthy_forms then Some True
      else if s \<in> set falsy_forms then Some False
      else None)"

text \<open>
  Modelled from the spec: the ``numeric parse'' of the integer coercion of
  \<^verbatim>\<open>util.coerce_kw_type\<close>: an optional sign followed by at least one decimal digit.
\<close>

definition digit_of :: "char \<Rightarrow> nat option" where
  "digit_of = map_of
     [(CHR ''0'', 0), (CHR ''1'', 1), (CHR ''2'', 2), (CHR ''3'', 3), (CHR ''4'', 4),
      (CHR ''5'', 5), (CHR ''6'', 6), (CHR ''7'', 7), (CHR ''8'', 8), (CHR ''9'', 9)]"

fun parse_digits :: "nat \<Rightarrow> string \<Rightarrow> nat option" where
  "parse_digits acc [] = Some acc"
| "parse_digits acc (c # cs) =
     (case digit_of c of None \<Rightarrow> None | Some d \<Rightarrow> parse_digits (10 * acc + d) cs)"

definition parse_int :: "string \<Rightarrow> int option" where
  "parse_int s =
     (case s of
        [] \<Rightarrow> None
      | c # cs \<Rightarrow>
          if c = CHR ''-'' then
            (if cs = [] then None else map_option (\<lambda>n. - int n) (parse_digits 0 cs))
          else if c = CHR ''+'' then
            (if cs = [] then None else map_option int (parse_digits 0 cs))
          else map_option int (parse_digits 0 s))"

text \<open>
  Modelled from the spec: the coercion of one value by \<^verbatim>\<open>util.coerce_kw_type\<close>. A
  string is parsed as the declared type and ``fails with a configuration error on
  unparseable input''; a value that is not a string is one of the ``already-typed''
  values and is left as it is.
\<close>

fun coerce_value :: "kw_type \<Rightarrow> py_value \<Rightarrow> py_error + py_value" where
  "coerce_value KwBool (PyStr s) =
     (case asbool s of None \<Rightarrow> Inl ConfigurationError | Some b \<Rightarrow> Inr (PyBool b))"
| "coerce_value KwInt (PyStr s) =
     (case parse_int s of None \<Rightarrow> Inl ConfigurationError | Some n \<Rightarrow> Inr (PyInt n))"
| "coerce_value ty v = Inr v"

type_synonym opts = "string \<rightharpoonup> py_value"

text \<open>
  Modelled from the spec: \<^verbatim>\<open>util.coerce_kw_type(kw, key, type_)\<close>, which is not among
  the sources. It coerces the value of \<open>key\<close> in place when the key is present, touches
  no other key (``unlisted keys pass through unmodified''), and leaves an absent key
  absent (``keys absent from input are omitted'').
\<close>

definition coerce_kw_type :: "opts \<Rightarrow> string \<Rightarrow> kw_type \<Rightarrow> py_error + opts" where
  "coerce_kw_type kw key ty =
     (case kw key of
        None \<Rightarrow> Inr kw
      | Some v \<Rightarrow>
          (case coerce_value ty v of Inl e \<Rightarrow> Inl e | Inr v' \<Rightarrow> Inr (kw(key \<mapsto> v'))))"

subsection \<open>\<^verbatim>\<open>MySQLDialect_mysqlconnector.create_connect_args\<close>\<close>

text \<open>
  The URL object belongs to the engine, outside these sources. The function reads two
  things of it: the mapping \<^verbatim>\<open>url.translate_connect_args(username="user")\<close> and the
  mapping \<^verbatim>\<open>url.query\<close>; both are fields here.
\<close>

record url =
  translated_connect_args :: opts
  query :: opts

text \<open>
  \<^verbatim>\<open>opts = url.translate_connect_args(username="user")\<close> followed by
  \<^verbatim>\<open>opts.update(url.query)\<close>: a key of the query replaces the same key of the
  translated arguments.
\<close>

definition initial_opts :: "url \<Rightarrow> opts" where
  "initial_opts u = translated_connect_args u ++ query u"

text \<open>The seventeen \<^verbatim>\<open>util.coerce_kw_type(opts, key, type)\<close> calls, in source order.\<close>

definition connect_arg_types :: "(string \<times> kw_type) list" where
  "connect_arg_types =
     [(''allow_local_infile'', KwBool),
      (''autocommit'', KwBool),
      (''buffered'', KwBool),
      (''client_flag'', KwInt),
      (''compress'', KwBool),
      (''connection_timeout'', KwInt),
      (''connect_timeout'', KwInt),
      (''consume_results'', KwBool),
      (''force_ipv6'', KwBool),
      (''get_warnings'', KwBool),
      (''pool_reset_session'', KwBool),
      (''pool_size'', KwInt),
      (''raise_on_warnings'', KwBool),
      (''raw'', KwBool),
      (''ssl_verify_cert'', KwBool),
      (''use_pure'', KwBool),
      (''use_unicode'', KwBool)]"

fun coerce_all :: "opts \<Rightarrow> (string \<times> kw_type) list \<Rightarrow> py_error + opts" where
  "coerce_all kw [] = Inr kw"
| "coerce_all kw ((key, ty) # rest) =
     (case coerce_kw_type kw key ty of Inl e \<Rightarrow> Inl e | Inr kw' \<Rightarrow> coerce_all kw' rest)"

text \<open>\<^verbatim>\<open>d.setdefault(k, v)\<close>: stores \<open>v\<close> only when \<open>k\<close> is not a key of \<open>d\<close>.\<close>

definition setdefault :: "opts \<Rightarrow> string \<Rightarrow> py_value \<Rightarrow> opts" where
  "setdefault d k v = (case d k of None \<Rightarrow> d(k \<mapsto> v) | Some w \<Rightarrow> d)"

text \<open>
  The driver's \<^verbatim>\<open>ClientFlag\<close> class, as far as it is used: the call
  \<^verbatim>\<open>ClientFlag.get_default()\<close> and the attribute \<^verbatim>\<open>ClientFlag.FOUND_ROWS\<close>, each of
  which yields an integer or raises. The statement
  \<^verbatim>\<open>from mysql.connector.constants import ClientFlag\<close> yields the class or raises.
\<close>

record client_flag_class =
  get_default :: "py_error + int"
  FOUND_ROWS :: "py_error + int"

text \<open>
  The body of the \<^verbatim>\<open>try\<close> block:
  \<^verbatim>\<open>client_flags = opts.get("client_flags", ClientFlag.get_default())
  client_flags |= ClientFlag.FOUND_ROWS
  opts["client_flags"] = client_flags\<close>
  The default is computed before \<^verbatim>\<open>opts.get\<close> is called, whether or not the key is
  present.
\<close>

definition merge_found_rows :: "py_error + client_flag_class \<Rightarrow> opts \<Rightarrow> py_error + opts" where
  "merge_found_rows import_ClientFlag kw =
     (case import_ClientFlag of
        Inl e \<Rightarrow> Inl e
      | Inr ClientFlag \<Rightarrow>
          (case get_default ClientFlag of
             Inl e \<Rightarrow> Inl e
           | Inr dflt \<Rightarrow>
               (let client_flags = (case kw ''client_flags'' of None \<Rightarrow> PyInt dflt | Some v \<Rightarrow> v)
                in case FOUND_ROWS ClientFlag of
                     Inl e \<Rightarrow> Inl e
                   | Inr found_rows \<Rightarrow>
                       (case py_or client_flags found_rows of
                          Inl e \<Rightarrow> Inl e
                        | Inr v \<Rightarrow> Inr (kw(''client_flags'' \<mapsto> v))))))"

text \<open>
  \<^verbatim>\<open>create_connect_args\<close>: merge the query into the translated arguments, coerce, default
  \<^verbatim>\<open>buffered\<close>, and, when \<^verbatim>\<open>self.dbapi is not None\<close>, run the \<^verbatim>\<open>try\<close> block, whose
  \<^verbatim>\<open>except Exception: pass\<close> keeps the options as they were. The result is
  \<^verbatim>\<open>[], opts\<close>.
\<close>

definition create_connect_args ::
  "py_error + client_flag_class \<Rightarrow> dialect \<Rightarrow> url \<Rightarrow> py_error + (py_value list \<times> opts)" where
  "create_connect_args import_ClientFlag self u =
     (case coerce_all (initial_opts u) connect_arg_types of
        Inl e \<Rightarrow> Inl e
      | Inr coerced \<Rightarrow>
          (let kw = setdefault coerced ''buffered'' (PyBool True);
               kw' = (case dbapi self of
                        None \<Rightarrow> kw
                      | Some m \<Rightarrow>
                          (case merge_found_rows import_ClientFlag kw of
                             Inl e \<Rightarrow> kw
                           | Inr merged \<Rightarrow> merged))
           in Inr ([], kw')))"

subsection \<open>Sample objects\<close>

text \<open>
  A driver module whose two exception classes carry their usual names, a dialect that has
  loaded it, and a \<^verbatim>\<open>ClientFlag\<close> class whose default flag set is 13 and whose
  \<^verbatim>\<open>FOUND_ROWS\<close> is bit 1. They are the concrete inputs of the examples below.
\<close>

definition connector_module :: dbapi_module where
  "connector_module =
     \<lparr>OperationalError = ''OperationalError'', InterfaceError = ''InterfaceError''\<rparr>"

definition loaded_dialect :: dialect where
  "loaded_dialect = \<lparr>dbapi = Some connector_module\<rparr>"

definition connector_ClientFlag :: client_flag_class where
  "connector_ClientFlag = \<lparr>get_default = Inr 13, FOUND_ROWS = Inr 2\<rparr>"

text \<open>The value a key has in the mapping that \<^verbatim>\<open>create_connect_args\<close> returned.\<close>

definition returned_option ::
  "py_error + (py_value list \<times> opts) \<Rightarrow> string \<Rightarrow> py_error + py_value option" where
  "returned_option res key = (case res of Inl e \<Rightarrow> Inl e | Inr (args, kw) \<Rightarrow> Inr (kw key))"

section \<open>Properties of the JSON path formatting\<close>

lemma py_mod_index_int: "py_mod ''$[%s]'' v = Inr (''$['' @ py_str v @ '']'')"
  by (simp add: py_mod_def)

lemma py_mod_index_key: \<open>py_mod ''$."%s"'' v = Inr (''$."'' @ py_str v @ ''"'')\<close>
  by (simp add: py_mod_def)

lemma py_mod_elem_int: "py_mod ''[%s]'' v = Inr (''['' @ py_str v @ '']'')"
  by (simp add: py_mod_def)

lemma py_mod_elem_key: \<open>py_mod ''."%s"'' v = Inr (''."'' @ py_str v @ ''"'')\<close>
  by (simp add: py_mod_def)

lemma py_mod_root: "py_mod ''$%s'' v = Inr (CHR ''$'' # py_str v)"
  by (simp add: py_mod_def)

lemma format_elem_step: "JSONPathType_format_elem (step_value s) = Inr (step_fragment s)"
  by (cases s) (simp_all add: JSONPathType_format_elem_def py_mod_elem_int py_mod_elem_key)

lemma map_result_steps:
  "map_result JSONPathType_format_elem (map step_value p) = Inr (map step_fragment p)"
  by (induction p) (simp_all add: format_elem_step)

text \<open>
  The decimal rendering is read back by the numeric parse: \<open>str_int\<close> writes the
  digits of the number, most significant first, after a minus sign when it is negative.
\<close>

lemma digit_of_digit_char: "d < 10 \<Longrightarrow> digit_of (digit_char d) = Some d"
proof -
  assume "d < 10"
  then have "d \<in> {0, 1, 2, 3, 4, 5, 6, 7, 8, 9}" by auto
  then show ?thesis by (auto simp: digit_of_def digit_char_def)
qed

lemma parse_digits_snoc:
  "parse_digits acc (xs @ [c]) =
     (case parse_digits acc xs of None \<Rightarrow> None
      | Some a \<Rightarrow> (case digit_of c of None \<Rightarrow> None | Some d \<Rightarrow> Some (10 * a + d)))"
  by (induction xs arbitrary: acc) (auto split: option.splits)

lemma parse_digits_str_nat: "parse_digits 0 (str_nat n) = Some n"
proof (induction n rule: str_nat.induct)
  case (1 n)
  show ?case
  proof (cases "n < 10")
    case True
    then show ?thesis by (simp add: str_nat.simps [of n] digit_of_digit_char)
  next
    case False
    with 1 have "parse_digits 0 (str_nat (n div 10)) = Some (n div 10)" by simp
    with False show ?thesis
      by (simp add: str_nat.simps [of n] parse_digits_snoc digit_of_digit_char)
  qed
qed

lemma str_nat_first: "\<exists>c cs. str_nat n = c # cs \<and> digit_of c \<noteq> None"
proof (induction n rule: str_nat.induct)
  case (1 n)
  show ?case
  proof (cases "n < 10")
    case True
    then show ?thesis by (simp add: str_nat.simps [of n] digit_of_digit_char)
  next
    case False
    with 1 obtain c cs where "str_nat (n div 10) = c # cs" "digit_of c \<noteq> None" by auto
    with False show ?thesis by (simp add: str_nat.simps [of n])
  qed
qed

lemma parse_int_str_int: "parse_int (str_int i) = Some i"
proof (cases "i < 0")
  case True
  obtain c cs where "str_nat (nat (- i)) = c # cs" using str_nat_first by blast
  with True show ?thesis
    using parse_digits_str_nat [of "nat (- i)"] by (simp add: parse_int_def str_int_def)
next
  case False
  obtain c cs where s: "str_nat (nat i) = c # cs" and dg: "digit_of c \<noteq> None"
    using str_nat_first by blast
  have "c \<noteq> CHR ''-''" "c \<noteq> CHR ''+''" using dg by (auto simp: digit_of_def)
  with False s show ?thesis
    using parse_digits_str_nat [of "nat i"] by (simp add: parse_int_def str_int_def)
qed

text \<open>
  C10: on the empty path the full-path formatting raises nothing and returns the
  one-character string \<open>$\<close>.
\<close>

theorem format_path_empty: "JSONPathType_format_value [] = Inr ''$''"
  by (simp add: JSONPathType_format_value_def py_mod_root)

text \<open>
  C2: for every non-empty path, the full-path formatting returns \<open>$\<close> followed by the
  fragments of the steps in input order, \<open>[i]\<close> for an integer step and \<open>."k"\<close> for a
  string step, with nothing between them.
\<close>

theorem format_path_nonempty:
  "p \<noteq> [] \<Longrightarrow>
   JSONPathType_format_value (map step_value p) = Inr (CHR ''$'' # concat (map step_fragment p))"
  by (simp add: JSONPathType_format_value_def map_result_steps py_mod_root)

theorem format_path_nonempty_witness:
  \<open>[Key ''a'', Index 0, Key ''b'', Index 12] \<noteq> [] \<and>
   JSONPathType_format_value [PyStr ''a'', PyInt 0, PyStr ''b'', PyInt 12] = Inr ''$."a"[0]."b"[12]''\<close>
  using format_path_nonempty [of "[Key ''a'', Index 0, Key ''b'', Index 12]"]
  by (simp add: str_int_def str_nat.simps digit_char_def)

text \<open>
  C3: the single-step formatting of an integer \<open>i\<close> is \<open>$[i]\<close> with \<open>i\<close> in decimal, and
  that of a string \<open>k\<close> without a quote character is \<open>$."k"\<close>.
\<close>

theorem format_index:
  \<open>JSONIndexType_format_value (PyInt i) = Inr (''$['' @ str_int i @ '']'') \<and>
   (CHR 0x22 \<notin> set k \<longrightarrow> JSONIndexType_format_value (PyStr k) = Inr (''$."'' @ k @ ''"''))\<close>
  by (simp add: JSONIndexType_format_value_def py_mod_index_int py_mod_index_key)

theorem format_index_witness:
  \<open>CHR 0x22 \<notin> set ''name'' \<and>
   JSONIndexType_format_value (PyInt (- 305)) = Inr ''$[-305]'' \<and>
   JSONIndexType_format_value (PyStr ''name'') = Inr ''$."name"''\<close>
  using format_index [of "- 305" "''name''"]
  by (simp add: str_int_def str_nat.simps digit_char_def)

section \<open>Properties of the connector dialect\<close>

subsection \<open>String replacement and search\<close>

lemma replace_from_single:
  "replace_from [q] new v = concat (map (\<lambda>c. if c = q then new else [c]) v)"
  by (induction v) auto

lemma replace_from_absent:
  "\<forall>i<length v. \<not> prefix old (drop i v) \<Longrightarrow> replace_from old new v = v"
proof (induction v)
  case Nil
  then show ?case by simp
next
  case (Cons c cs)
  from Cons.prems have "\<not> prefix old (c # cs)" by force
  moreover have "\<forall>i<length cs. \<not> prefix old (drop i cs)"
  proof (intro allI impI)
    fix i assume "i < length cs"
    then have "\<not> prefix old (drop (Suc i) (c # cs))" using Cons.prems by (metis Suc_less_eq length_Cons)
    then show "\<not> prefix old (drop i cs)" by simp
  qed
  ultimately show ?case using Cons.IH by simp
qed

lemma replace_from_here:
  "old \<noteq> [] \<Longrightarrow> replace_from old new (old @ r) = new @ replace_from old new r"
  by (cases old) simp_all

lemma replace_from_first:
  "old \<noteq> [] \<Longrightarrow> \<forall>i<length a. \<not> prefix old (drop i (a @ old @ r)) \<Longrightarrow>
   replace_from old new (a @ old @ r) = a @ new @ replace_from old new r"
proof (induction a)
  case Nil
  then show ?case by (simp add: replace_from_here)
next
  case (Cons c cs)
  from Cons.prems(2) have "\<not> prefix old (c # cs @ old @ r)" by force
  moreover have "\<forall>i<length cs. \<not> prefix old (drop i (cs @ old @ r))"
  proof (intro allI impI)
    fix i assume "i < length cs"
    then have "\<not> prefix old (drop (Suc i) ((c # cs) @ old @ r))"
      using Cons.prems(2) by (metis Suc_less_eq length_Cons)
    then show "\<not> prefix old (drop i (cs @ old @ r))" by simp
  qed
  ultimately show ?case using Cons.IH Cons.prems(1) by simp
qed



subsection \<open>The modulo operator and the identifier escaper\<close>

text \<open>
  C8: when the two operands render to \<open>x\<close> and \<open>y\<close>, \<^verbatim>\<open>visit_mod_binary\<close> returns
  exactly \<open>x % y\<close>: the left text, a space, one percent sign, a space, the right text.
  The rewrite adds one percent sign and no parenthesis to what the operands contain.
\<close>

theorem visit_mod_binary_text:
  "process (left binary) = Inr x \<Longrightarrow> process (right binary) = Inr y \<Longrightarrow>
   visit_mod_binary process binary = Inr (x @ '' % '' @ y) \<and>
   (\<forall>r. visit_mod_binary process binary = Inr r \<longrightarrow>
      count_list r CHR ''%'' = count_list x CHR ''%'' + 1 + count_list y CHR ''%'' \<and>
      count_list r CHR ''('' = count_list x CHR ''('' + count_list y CHR ''('')"
  by (simp add: visit_mod_binary_def)

theorem visit_mod_binary_text_witness:
  "visit_mod_binary Inr \<lparr>left = ''x'', right = ''y''\<rparr> = Inr ''x % y''"
  using visit_mod_binary_text [of Inr "\<lparr>left = ''x'', right = ''y''\<rparr>" "''x''" "''y''"]
  by simp

text \<open>
  C9: the escaper reports \<open>False\<close> for percent doubling, also after an assignment to
  the property, and escaping an identifier only replaces the quote-escape sequence by
  its escaped form. For a one-character sequence every occurrence of the character is
  replaced and every other character, a percent sign included, is kept; for any
  non-empty sequence an identifier without an occurrence is unchanged and the leftmost
  occurrence is replaced, the rest of the identifier being escaped in the same way.
\<close>

theorem escaper_replaces_quote_only:
  "double_percents self = False \<and>
   double_percents (set_double_percents self b) = False \<and>
   (escape_quote self = [q] \<longrightarrow>
      escape_identifier self v =
        concat (map (\<lambda>c. if c = q then escape_to_quote self else [c]) v)) \<and>
   (escape_quote self \<noteq> [] \<longrightarrow> (\<forall>i<length v. \<not> prefix (escape_quote self) (drop i v)) \<longrightarrow>
      escape_identifier self v = v) \<and>
   (escape_quote self \<noteq> [] \<longrightarrow>
    (\<forall>i<length a. \<not> prefix (escape_quote self) (drop i (a @ escape_quote self @ r))) \<longrightarrow>
      escape_identifier self (a @ escape_quote self @ r) =
        a @ escape_to_quote self @ escape_identifier self r)"
  by (simp add: double_percents_def escape_identifier_def py_replace_def
      replace_from_single replace_from_absent replace_from_first)

theorem escaper_replaces_quote_only_witness:
  "escape_quote \<lparr>escape_quote = ''`'', escape_to_quote = ''``''\<rparr> = [CHR ''`''] \<and>
   double_percents (set_double_percents \<lparr>escape_quote = ''`'', escape_to_quote = ''``''\<rparr> (PyBool True)) = False \<and>
   escape_identifier \<lparr>escape_quote = ''`'', escape_to_quote = ''``''\<rparr> ''a`b%c'' = ''a``b%c'' \<and>
   escape_identifier \<lparr>escape_quote = ''`'', escape_to_quote = ''``''\<rparr> ''50%'' = ''50%'' \<and>
   escape_identifier \<lparr>escape_quote = ''`'', escape_to_quote = ''``''\<rparr> ''x`y'' = ''x``y''"
proof -
  let ?p = "\<lparr>escape_quote = ''`'', escape_to_quote = ''``''\<rparr>"
  have h1: "\<forall>i<length ''50%''. \<not> prefix (escape_quote ?p) (drop i ''50%'')"
    by (simp add: less_Suc_eq drop_Cons')
  have h2: "\<forall>i<length ''x''. \<not> prefix (escape_quote ?p) (drop i (''x'' @ escape_quote ?p @ ''y''))"
    by simp
  show ?thesis
    using h1 h2
      escaper_replaces_quote_only [of ?p "PyBool True" "CHR ''`''" "''a`b%c''" "''x''" "''y''"]
      escaper_replaces_quote_only [of ?p "PyBool True" "CHR ''`''" "''50%''" "''x''" "''y''"]
    by (simp add: escape_identifier_def py_replace_def)
qed

subsection \<open>The health classifier\<close>



text \<open>
  C6, as stated, fails: an exception of a recognised category that has no \<open>errno\<close>
  attribute makes \<^verbatim>\<open>is_disconnect\<close> raise \<open>AttributeError\<close>, although its message
  is well formed.
\<close>

theorem is_disconnect_missing_errno:
  "is_disconnect loaded_dialect
     \<lparr>mro = [''OperationalError'', ''Error''], errno = None,
       str_result = Inr ''MySQL Connection not available.''\<rparr> = Inl AttributeError"
  by (simp add: is_disconnect_def loaded_dialect_def connector_module_def isinstance_def)

text \<open>
  C6, amended: with the driver loaded, \<^verbatim>\<open>is_disconnect\<close> returns false for an
  exception outside the two categories. For an exception of one of them it reads
  \<open>errno\<close> and \<open>str(e)\<close> unguarded: a missing \<open>errno\<close> attribute raises
  \<open>AttributeError\<close>; a fatal code gives true without reading the message; when the
  attribute is present and \<open>str(e)\<close> succeeds the classification completes, and a code
  that is no number (\<open>None\<close>, a string) leaves the decision to the message alone;
  when the code is not fatal and \<open>str(e)\<close> raises, that error is raised.
\<close>

theorem is_disconnect_unguarded:
  "dbapi self = Some m \<Longrightarrow>
   (\<not> isinstance e [OperationalError m, InterfaceError m] \<longrightarrow> is_disconnect self e = Inr False) \<and>
   (isinstance e [OperationalError m, InterfaceError m] \<longrightarrow>
      (errno e = None \<longrightarrow> is_disconnect self e = Inl AttributeError) \<and>
      (errno e = Some code \<longrightarrow> py_in code errnos \<longrightarrow> is_disconnect self e = Inr True) \<and>
      (errno e = Some code \<longrightarrow> str_result e = Inr msg \<longrightarrow> (\<exists>b. is_disconnect self e = Inr b)) \<and>
      (errno e = Some code \<longrightarrow> code = PyNone \<or> (\<exists>s. code = PyStr s) \<longrightarrow>
       str_result e = Inr msg \<longrightarrow>
         is_disconnect self e =
           Inr (str_contains ''MySQL Connection not available.'' msg \<or>
                str_contains ''Connection to MySQL is not available'' msg)) \<and>
      (errno e = Some code \<longrightarrow> \<not> py_in code errnos \<longrightarrow> str_result e = Inl err \<longrightarrow>
         is_disconnect self e = Inl err))"
  by (auto simp add: is_disconnect_def)

theorem is_disconnect_unguarded_witness:
  "dbapi loaded_dialect = Some connector_module \<and>
   isinstance \<lparr>mro = [''InterfaceError'', ''Error''], errno = Some PyNone,
       str_result = Inr ''Unknown error''\<rparr>
     [OperationalError connector_module, InterfaceError connector_module] \<and>
   is_disconnect loaded_dialect
     \<lparr>mro = [''InterfaceError'', ''Error''], errno = Some PyNone,
       str_result = Inr ''Unknown error''\<rparr> = Inr False \<and>
   is_disconnect loaded_dialect
     \<lparr>mro = [''InterfaceError'', ''Error''], errno = Some (PyInt 2013),
       str_result = Inl TypeError\<rparr> = Inr True \<and>
   is_disconnect loaded_dialect
     \<lparr>mro = [''InterfaceError'', ''Error''], errno = Some (PyInt 1045),
       str_result = Inl TypeError\<rparr> = Inl TypeError \<and>
   is_disconnect loaded_dialect
     \<lparr>mro = [''InterfaceError'', ''Error''], errno = None,
       str_result = Inr ''Unknown error''\<rparr> = Inl AttributeError \<and>
   \<not> isinstance \<lparr>mro = [''KeyError''], errno = None, str_result = Inl TypeError\<rparr>
     [OperationalError connector_module, InterfaceError connector_module] \<and>
   is_disconnect loaded_dialect
     \<lparr>mro = [''KeyError''], errno = None, str_result = Inl TypeError\<rparr> = Inr False"
proof -
  have d: "dbapi loaded_dialect = Some connector_module"
    by (simp add: loaded_dialect_def)
  show ?thesis
    using d
      is_disconnect_unguarded [OF d,
        of "\<lparr>mro = [''InterfaceError'', ''Error''], errno = Some PyNone,
             str_result = Inr ''Unknown error''\<rparr>" PyNone "''Unknown error''" TypeError]
      is_disconnect_unguarded [OF d,
        of "\<lparr>mro = [''InterfaceError'', ''Error''], errno = Some (PyInt 2013),
             str_result = Inl TypeError\<rparr>" "PyInt 2013" "''Unknown error''" TypeError]
      is_disconnect_unguarded [OF d,
        of "\<lparr>mro = [''InterfaceError'', ''Error''], errno = Some (PyInt 1045),
             str_result = Inl TypeError\<rparr>" "PyInt 1045" "''Unknown error''" TypeError]
      is_disconnect_unguarded [OF d,
        of "\<lparr>mro = [''InterfaceError'', ''Error''], errno = None,
             str_result = Inr ''Unknown error''\<rparr>" PyNone "''Unknown error''" TypeError]
      is_disconnect_unguarded [OF d,
        of "\<lparr>mro = [''KeyError''], errno = None, str_result = Inl TypeError\<rparr>"
           PyNone "''Unknown error''" TypeError]
    by (simp add: isinstance_def connector_module_def errnos_def)
qed

subsection \<open>Connection options\<close>

lemma coerce_kw_type_other:
  "coerce_kw_type kw key ty = Inr kw' \<Longrightarrow> k \<noteq> key \<Longrightarrow> kw' k = kw k"
  by (auto simp: coerce_kw_type_def split: option.splits sum.splits)

lemma coerce_kw_type_absent:
  "coerce_kw_type kw key ty = Inr kw' \<Longrightarrow> kw' k = None \<longleftrightarrow> kw k = None"
  by (auto simp: coerce_kw_type_def split: option.splits sum.splits if_splits)

lemma coerce_kw_type_key:
  "coerce_kw_type kw key ty = Inr kw' \<Longrightarrow> kw key = Some v \<Longrightarrow>
   \<exists>v'. coerce_value ty v = Inr v' \<and> kw' key = Some v'"
  by (auto simp: coerce_kw_type_def split: option.splits sum.splits)

lemma coerce_kw_type_error:
  "coerce_kw_type kw key ty = Inl e \<Longrightarrow> e = ConfigurationError"
  by (cases ty; cases "kw key"; cases "the (kw key)")
     (auto simp: coerce_kw_type_def split: option.splits sum.splits)

lemma coerce_all_other:
  "coerce_all kw sch = Inr kw' \<Longrightarrow> k \<notin> fst ` set sch \<Longrightarrow> kw' k = kw k"
proof (induction kw sch rule: coerce_all.induct)
  case (1 kw)
  then show ?case by simp
next
  case (2 kw key ty rest)
  then show ?case
    by (auto split: sum.splits dest: coerce_kw_type_other)
qed

lemma coerce_all_absent:
  "coerce_all kw sch = Inr kw' \<Longrightarrow> kw' k = None \<longleftrightarrow> kw k = None"
proof (induction kw sch rule: coerce_all.induct)
  case (1 kw)
  then show ?case by simp
next
  case (2 kw key ty rest)
  then show ?case
    by (auto split: sum.splits dest: coerce_kw_type_absent)
qed

lemma coerce_all_error:
  "coerce_all kw sch = Inl e \<Longrightarrow> e = ConfigurationError"
proof (induction kw sch rule: coerce_all.induct)
  case (1 kw)
  then show ?case by simp
next
  case (2 kw key ty rest)
  then show ?case
    by (auto split: sum.splits dest: coerce_kw_type_error)
qed

lemma coerce_all_key:
  "coerce_all kw sch = Inr kw' \<Longrightarrow> distinct (map fst sch) \<Longrightarrow> (key, ty) \<in> set sch \<Longrightarrow>
   kw key = Some v \<Longrightarrow> \<exists>v'. coerce_value ty v = Inr v' \<and> kw' key = Some v'"
proof (induction kw sch rule: coerce_all.induct)
  case (1 kw)
  then show ?case by simp
next
  case (2 kw k t rest)
  from "2.prems"(1) obtain kw1 where
    step: "coerce_kw_type kw k t = Inr kw1" and rest: "coerce_all kw1 rest = Inr kw'"
    by (auto split: sum.splits)
  show ?case
  proof (cases "(key, ty) = (k, t)")
    case True
    from coerce_kw_type_key [OF step] "2.prems"(4) True
    obtain v' where v': "coerce_value ty v = Inr v'" "kw1 key = Some v'" by auto
    from "2.prems"(2) True have "key \<notin> fst ` set rest" by auto
    with coerce_all_other [OF rest] v' show ?thesis by auto
  next
    case False
    with "2.prems"(3) have mem: "(key, ty) \<in> set rest" by auto
    with "2.prems"(2) have "key \<noteq> k" by force
    with coerce_kw_type_other [OF step] "2.prems"(4) have "kw1 key = Some v" by simp
    with "2.IH" [OF step rest] "2.prems"(2) mem show ?thesis by simp
  qed
qed

lemma connect_arg_types_distinct: "distinct (map fst connect_arg_types)"
  by (simp add: connect_arg_types_def)

lemma client_flags_undeclared: "''client_flags'' \<notin> fst ` set connect_arg_types"
  by (simp add: connect_arg_types_def)

lemma buffered_declared: "(''buffered'', KwBool) \<in> set connect_arg_types"
  by (simp add: connect_arg_types_def)


lemma merge_found_rows_other:
  "merge_found_rows imp kw = Inr kw' \<Longrightarrow> k \<noteq> ''client_flags'' \<Longrightarrow> kw' k = kw k"
  by (auto simp: merge_found_rows_def Let_def split: sum.splits)

lemma setdefault_apply:
  "setdefault d k v k' = (if k' = k \<and> d k = None then Some v else d k')"
  by (auto simp: setdefault_def split: option.splits)

lemma create_connect_args_result:
  assumes "create_connect_args imp self u = Inr (args, out)"
  shows "\<exists>coerced. coerce_all (initial_opts u) connect_arg_types = Inr coerced \<and> args = [] \<and>
    (\<forall>k. k \<noteq> ''client_flags'' \<longrightarrow> out k = setdefault coerced ''buffered'' (PyBool True) k)"
proof -
  from assms obtain coerced where
    c: "coerce_all (initial_opts u) connect_arg_types = Inr coerced"
    by (auto simp: create_connect_args_def split: sum.splits)
  let ?kw = "setdefault coerced ''buffered'' (PyBool True)"
  from assms c have a: "args = []"
    by (simp add: create_connect_args_def Let_def)
  from assms c have o: "out = (case dbapi self of None \<Rightarrow> ?kw
      | Some m \<Rightarrow> (case merge_found_rows imp ?kw of Inl e \<Rightarrow> ?kw | Inr merged \<Rightarrow> merged))"
    by (simp add: create_connect_args_def Let_def)
  have "out k = ?kw k" if "k \<noteq> ''client_flags''" for k
    using o that by (auto split: option.splits sum.splits dest: merge_found_rows_other)
  with c a show ?thesis by blast
qed

lemma coerce_all_undeclared:
  "\<forall>k \<in> fst ` set sch. kw k = None \<Longrightarrow> coerce_all kw sch = Inr kw"
  by (induction kw sch rule: coerce_all.induct) (auto simp: coerce_kw_type_def)

lemma merge_found_rows_ok:
  "get_default cf = Inr dflt \<Longrightarrow> FOUND_ROWS cf = Inr fr \<Longrightarrow>
   merge_found_rows (Inr cf) kw =
     (case py_or (case kw ''client_flags'' of None \<Rightarrow> PyInt dflt | Some v \<Rightarrow> v) fr of
        Inl e \<Rightarrow> Inl e | Inr v \<Rightarrow> Inr (kw(''client_flags'' \<mapsto> v)))"
  by (simp add: merge_found_rows_def)

lemma merge_found_rows_lookup_fails:
  "imp = Inl e \<or> (imp = Inr cf \<and> (get_default cf = Inl e \<or> FOUND_ROWS cf = Inl e)) \<Longrightarrow>
   \<exists>e'. merge_found_rows imp kw = Inl e'"
  by (auto simp: merge_found_rows_def Let_def split: sum.splits)

text \<open>
  C5: when a declared key holds a string that does not parse as the declared type (such
  as \<open>pool_size = "not-a-number"\<close>), \<^verbatim>\<open>create_connect_args\<close> fails with a
  configuration error and returns no pair of connect arguments.
\<close>

theorem malformed_option_fails:
  "(key, ty) \<in> set connect_arg_types \<Longrightarrow>
   initial_opts u key = Some (PyStr s) \<Longrightarrow>
   (ty = KwBool \<and> asbool s = None) \<or> (ty = KwInt \<and> parse_int s = None) \<Longrightarrow>
   create_connect_args import_ClientFlag self u = Inl ConfigurationError"
proof -
  assume mem: "(key, ty) \<in> set connect_arg_types"
    and val: "initial_opts u key = Some (PyStr s)"
    and bad: "(ty = KwBool \<and> asbool s = None) \<or> (ty = KwInt \<and> parse_int s = None)"
  from bad have cv: "coerce_value ty (PyStr s) = Inl ConfigurationError" by auto
  have "coerce_all (initial_opts u) connect_arg_types = Inl ConfigurationError"
  proof (cases "coerce_all (initial_opts u) connect_arg_types")
    case (Inl e)
    then show ?thesis using coerce_all_error by blast
  next
    case (Inr kw')
    from coerce_all_key [OF Inr connect_arg_types_distinct mem val] cv
    show ?thesis by simp
  qed
  then show ?thesis by (simp add: create_connect_args_def)
qed

theorem malformed_option_fails_witness:
  "(''pool_size'', KwInt) \<in> set connect_arg_types \<and>
   initial_opts \<lparr>translated_connect_args = [''host'' \<mapsto> PyStr ''localhost''],
                 query = [''pool_size'' \<mapsto> PyStr ''not-a-number'']\<rparr> ''pool_size'' =
     Some (PyStr ''not-a-number'') \<and>
   parse_int ''not-a-number'' = None \<and>
   create_connect_args (Inr connector_ClientFlag) loaded_dialect
     \<lparr>translated_connect_args = [''host'' \<mapsto> PyStr ''localhost''],
      query = [''pool_size'' \<mapsto> PyStr ''not-a-number'']\<rparr> = Inl ConfigurationError"
proof -
  let ?u = "\<lparr>translated_connect_args = [''host'' \<mapsto> PyStr ''localhost''],
             query = [''pool_size'' \<mapsto> PyStr ''not-a-number'']\<rparr>"
  have m: "(''pool_size'', KwInt) \<in> set connect_arg_types"
    by (simp add: connect_arg_types_def)
  have v: "initial_opts ?u ''pool_size'' = Some (PyStr ''not-a-number'')"
    by (simp add: initial_opts_def)
  have p: "parse_int ''not-a-number'' = None"
    by (simp add: parse_int_def digit_of_def)
  from malformed_option_fails [OF m v, of "Inr connector_ClientFlag" loaded_dialect] m v p
  show ?thesis by simp
qed

text \<open>
  C4, as stated, fails: \<open>client_flags\<close> is not one of the declared keys (the declared
  key is \<open>client_flag\<close>), yet with the driver loaded its value 0 is returned as 2,
  \<^verbatim>\<open>FOUND_ROWS\<close> having been merged into it; and on the specification's example
  input, which has no such key, the returned mapping holds \<open>client_flags = 15\<close>.
\<close>

theorem client_flags_key_changed:
  "''client_flags'' \<notin> fst ` set connect_arg_types \<and>
   initial_opts \<lparr>translated_connect_args = Map.empty,
                 query = [''client_flags'' \<mapsto> PyInt 0]\<rparr> ''client_flags'' = Some (PyInt 0) \<and>
   returned_option
     (create_connect_args (Inr connector_ClientFlag) loaded_dialect
        \<lparr>translated_connect_args = Map.empty, query = [''client_flags'' \<mapsto> PyInt 0]\<rparr>)
     ''client_flags'' = Inr (Some (PyInt 2)) \<and>
   initial_opts
     \<lparr>translated_connect_args = Map.empty,
      query = [''autocommit'' \<mapsto> PyStr ''true'', ''pool_size'' \<mapsto> PyStr ''5'',
               ''unknown_opt'' \<mapsto> PyStr ''foo'']\<rparr> ''client_flags'' = None \<and>
   returned_option
     (create_connect_args (Inr connector_ClientFlag) loaded_dialect
        \<lparr>translated_connect_args = Map.empty,
         query = [''autocommit'' \<mapsto> PyStr ''true'', ''pool_size'' \<mapsto> PyStr ''5'',
                  ''unknown_opt'' \<mapsto> PyStr ''foo'']\<rparr>)
     ''client_flags'' = Inr (Some (PyInt 15))"
  by (simp add: create_connect_args_def returned_option_def loaded_dialect_def
        merge_found_rows_def connector_ClientFlag_def setdefault_def initial_opts_def
        connect_arg_types_def coerce_kw_type_def asbool_def truthy_forms_def falsy_forms_def
        parse_int_def digit_of_def)

text \<open>
  C4, amended: when \<^verbatim>\<open>create_connect_args\<close> returns, the positional arguments are
  empty; a declared boolean key given as a string holds the boolean the string stands
  for, a declared integer key given as a string holds the integer it denotes; every key
  that is neither declared nor \<open>client_flags\<close> has the value it had in the input; and
  \<open>buffered\<close> is \<open>True\<close> when the input has no such key.
\<close>

theorem connect_args_coerced:
  "create_connect_args import_ClientFlag self u = Inr (args, out) \<Longrightarrow>
   args = [] \<and>
   ((key, KwBool) \<in> set connect_arg_types \<longrightarrow> initial_opts u key = Some (PyStr s) \<longrightarrow>
      (\<exists>b. asbool s = Some b \<and> out key = Some (PyBool b))) \<and>
   ((key, KwInt) \<in> set connect_arg_types \<longrightarrow> initial_opts u key = Some (PyStr s) \<longrightarrow>
      (\<exists>n. parse_int s = Some n \<and> out key = Some (PyInt n))) \<and>
   (key \<notin> fst ` set connect_arg_types \<longrightarrow> key \<noteq> ''client_flags'' \<longrightarrow>
      out key = initial_opts u key) \<and>
   (initial_opts u ''buffered'' = None \<longrightarrow> out ''buffered'' = Some (PyBool True))"
proof -
  assume res: "create_connect_args import_ClientFlag self u = Inr (args, out)"
  from create_connect_args_result [OF res] obtain coerced where
    c: "coerce_all (initial_opts u) connect_arg_types = Inr coerced"
    and a: "args = []"
    and o: "\<And>k. k \<noteq> ''client_flags'' \<Longrightarrow> out k = setdefault coerced ''buffered'' (PyBool True) k"
    by blast
  have declared: "out key = Some v'"
    if mem: "(key, ty) \<in> set connect_arg_types" and val: "initial_opts u key = Some v"
      and cv: "coerce_value ty v = Inr v'" for ty v v'
  proof -
    from coerce_all_key [OF c connect_arg_types_distinct mem val] cv
    have ck: "coerced key = Some v'" by auto
    from mem client_flags_undeclared have "key \<noteq> ''client_flags''" by force
    with o [of key] ck show ?thesis by (auto simp: setdefault_apply)
  qed
  have ok: "\<exists>v'. coerce_value ty v = Inr v'"
    if "(key, ty) \<in> set connect_arg_types" and "initial_opts u key = Some v" for ty v
    using coerce_all_key [OF c connect_arg_types_distinct that] by blast
  have p1: "\<exists>b. asbool s = Some b \<and> out key = Some (PyBool b)"
    if mem: "(key, KwBool) \<in> set connect_arg_types" and val: "initial_opts u key = Some (PyStr s)"
  proof -
    from ok [OF mem val] obtain b where b: "asbool s = Some b"
      by (auto split: option.splits)
    then have "coerce_value KwBool (PyStr s) = Inr (PyBool b)" by simp
    from declared [OF mem val this] b show ?thesis by simp
  qed
  have p2: "\<exists>n. parse_int s = Some n \<and> out key = Some (PyInt n)"
    if mem: "(key, KwInt) \<in> set connect_arg_types" and val: "initial_opts u key = Some (PyStr s)"
  proof -
    from ok [OF mem val] obtain n where n: "parse_int s = Some n"
      by (auto split: option.splits)
    then have "coerce_value KwInt (PyStr s) = Inr (PyInt n)" by simp
    from declared [OF mem val this] n show ?thesis by simp
  qed
  have p3: "out key = initial_opts u key"
    if und: "key \<notin> fst ` set connect_arg_types" and ncf: "key \<noteq> ''client_flags''"
  proof -
    from und buffered_declared have "key \<noteq> ''buffered''" by force
    with o [OF ncf] have "out key = coerced key" by (simp add: setdefault_apply)
    with coerce_all_other [OF c und] show ?thesis by simp
  qed
  have p4: "out ''buffered'' = Some (PyBool True)" if "initial_opts u ''buffered'' = None"
  proof -
    from coerce_all_absent [OF c, of "''buffered''"] that have "coerced ''buffered'' = None" by simp
    with o [of "''buffered''"] show ?thesis by (simp add: setdefault_apply)
  qed
  from a p1 p2 p3 p4 show ?thesis by blast
qed

theorem connect_args_coerced_witness:
  "returned_option
     (create_connect_args (Inr connector_ClientFlag) loaded_dialect
        \<lparr>translated_connect_args = [''user'' \<mapsto> PyStr ''scott''],
         query = [''autocommit'' \<mapsto> PyStr ''true'', ''pool_size'' \<mapsto> PyStr ''5'',
                  ''unknown_opt'' \<mapsto> PyStr ''foo'']\<rparr>) ''autocommit'' = Inr (Some (PyBool True)) \<and>
   returned_option
     (create_connect_args (Inr connector_ClientFlag) loaded_dialect
        \<lparr>translated_connect_args = [''user'' \<mapsto> PyStr ''scott''],
         query = [''autocommit'' \<mapsto> PyStr ''true'', ''pool_size'' \<mapsto> PyStr ''5'',
                  ''unknown_opt'' \<mapsto> PyStr ''foo'']\<rparr>) ''pool_size'' = Inr (Some (PyInt 5)) \<and>
   returned_option
     (create_connect_args (Inr connector_ClientFlag) loaded_dialect
        \<lparr>translated_connect_args = [''user'' \<mapsto> PyStr ''scott''],
         query = [''autocommit'' \<mapsto> PyStr ''true'', ''pool_size'' \<mapsto> PyStr ''5'',
                  ''unknown_opt'' \<mapsto> PyStr ''foo'']\<rparr>) ''unknown_opt'' = Inr (Some (PyStr ''foo'')) \<and>
   returned_option
     (create_connect_args (Inr connector_ClientFlag) loaded_dialect
        \<lparr>translated_connect_args = [''user'' \<mapsto> PyStr ''scott''],
         query = [''autocommit'' \<mapsto> PyStr ''true'', ''pool_size'' \<mapsto> PyStr ''5'',
                  ''unknown_opt'' \<mapsto> PyStr ''foo'']\<rparr>) ''buffered'' = Inr (Some (PyBool True))"
proof -
  let ?u = "\<lparr>translated_connect_args = [''user'' \<mapsto> PyStr ''scott''],
             query = [''autocommit'' \<mapsto> PyStr ''true'', ''pool_size'' \<mapsto> PyStr ''5'',
                      ''unknown_opt'' \<mapsto> PyStr ''foo'']\<rparr>"
  let ?res = "create_connect_args (Inr connector_ClientFlag) loaded_dialect ?u"
  have "\<exists>args out. ?res = Inr (args, out)"
    by (simp add: create_connect_args_def initial_opts_def connect_arg_types_def
        coerce_kw_type_def asbool_def truthy_forms_def falsy_forms_def parse_int_def
        digit_of_def Let_def)
  then obtain args out where r: "?res = Inr (args, out)" by blast
  have k1: "(''autocommit'', KwBool) \<in> set connect_arg_types"
    and k2: "(''pool_size'', KwInt) \<in> set connect_arg_types"
    and k3: "''unknown_opt'' \<notin> fst ` set connect_arg_types"
    by (simp_all add: connect_arg_types_def)
  have v1: "initial_opts ?u ''autocommit'' = Some (PyStr ''true'')"
    and v2: "initial_opts ?u ''pool_size'' = Some (PyStr ''5'')"
    and v3: "initial_opts ?u ''unknown_opt'' = Some (PyStr ''foo'')"
    and v4: "initial_opts ?u ''buffered'' = None"
    by (simp_all add: initial_opts_def)
  have b: "asbool ''true'' = Some True"
    by (simp add: asbool_def truthy_forms_def)
  have n: "parse_int ''5'' = Some 5"
    by (simp add: parse_int_def digit_of_def)
  from connect_args_coerced [OF r, of "''autocommit''" "''true''"] k1 v1 b
  have o1: "out ''autocommit'' = Some (PyBool True)" by auto
  from connect_args_coerced [OF r, of "''pool_size''" "''5''"] k2 v2 n
  have o2: "out ''pool_size'' = Some (PyInt 5)" by auto
  from connect_args_coerced [OF r, of "''unknown_opt''" "''foo''"] k3 v3 v4
  have o3: "out ''unknown_opt'' = Some (PyStr ''foo'')"
    and o4: "out ''buffered'' = Some (PyBool True)" by auto
  from r o1 o2 o3 o4 show ?thesis
    by (simp add: returned_option_def)
qed

text \<open>
  C7: the source does not do what the claim says, and what its own comment
  (\<^verbatim>\<open>FOUND_ROWS must be set in ClientFlag to enable supports_sane_rowcount\<close>) asks
  for, on a \<open>client_flags\<close> option given in the URL query. With the driver loaded and
  the import of \<^verbatim>\<open>ClientFlag\<close>, \<^verbatim>\<open>get_default()\<close> and \<^verbatim>\<open>FOUND_ROWS\<close> all
  succeeding, the query \<open>client_flags=2\<close> is returned as the string it was:
  the coercion calls name \<open>client_flag\<close>, so the value is still a string when
  \<^verbatim>\<open>client_flags |= ClientFlag.FOUND_ROWS\<close> runs, the \<^verbatim>\<open>TypeError\<close> is discarded by
  \<^verbatim>\<open>except Exception: pass\<close>, and \<^verbatim>\<open>FOUND_ROWS\<close> is not merged.
\<close>

theorem found_rows_not_merged_into_string:
  "dbapi loaded_dialect = Some connector_module \<and>
   get_default connector_ClientFlag = Inr 13 \<and>
   FOUND_ROWS connector_ClientFlag = Inr 2 \<and>
   returned_option
     (create_connect_args (Inr connector_ClientFlag) loaded_dialect
        \<lparr>translated_connect_args = [''user'' \<mapsto> PyStr ''scott''],
         query = [''client_flags'' \<mapsto> PyStr ''2'']\<rparr>)
     ''client_flags'' = Inr (Some (PyStr ''2''))"
  by (simp add: create_connect_args_def returned_option_def loaded_dialect_def
        merge_found_rows_def connector_ClientFlag_def setdefault_def initial_opts_def
        connect_arg_types_def coerce_kw_type_def)

text \<open>
  The same holds for every string and every \<^verbatim>\<open>ClientFlag\<close>: whatever the import
  yields, a \<open>client_flags\<close> option that holds a string comes back unchanged, so a
  value supplied in the URL query is never merged.
\<close>

lemma string_client_flags_never_merged:
  assumes "coerce_all (initial_opts u) connect_arg_types = Inr coerced"
    and "initial_opts u ''client_flags'' = Some (PyStr s)"
  shows "create_connect_args imp self u =
           Inr ([], setdefault coerced ''buffered'' (PyBool True))"
    and "returned_option (create_connect_args imp self u) ''client_flags'' =
           Inr (Some (PyStr s))"
proof -
  let ?kw = "setdefault coerced ''buffered'' (PyBool True)"
  from coerce_all_other [OF assms(1) client_flags_undeclared] assms(2)
  have cf: "?kw ''client_flags'' = Some (PyStr s)"
    by (simp add: setdefault_apply)
  then have "\<exists>e. merge_found_rows imp ?kw = Inl e"
    by (auto simp: merge_found_rows_def split: sum.splits)
  then obtain e where "merge_found_rows imp ?kw = Inl e" by blast
  with assms(1) show r: "create_connect_args imp self u = Inr ([], ?kw)"
    by (simp add: create_connect_args_def Let_def split: option.splits)
  from r cf show "returned_option (create_connect_args imp self u) ''client_flags'' =
      Inr (Some (PyStr s))"
    by (simp add: returned_option_def)
qed

text \<open>
  The paths on which the function does what its comment asks: after a successful
  coercion and with the driver loaded, when the import of \<^verbatim>\<open>ClientFlag\<close>,
  \<^verbatim>\<open>get_default()\<close> and \<^verbatim>\<open>FOUND_ROWS\<close> all succeed and the coerced option
  \<open>client_flags\<close> is absent or holds an integer, the returned mapping holds the bitwise
  or of that integer (of the default flags when absent) with \<^verbatim>\<open>FOUND_ROWS\<close>, the
  other options being as they were; when one of the three lookups raises, the function
  still returns, with every option as it was after coercion and defaulting.
\<close>

lemma found_rows_merge:
  "coerce_all (initial_opts u) connect_arg_types = Inr coerced \<Longrightarrow> dbapi self = Some m \<Longrightarrow>
   (let kw = setdefault coerced ''buffered'' (PyBool True) in
      (imp = Inr cf \<longrightarrow> get_default cf = Inr dflt \<longrightarrow> FOUND_ROWS cf = Inr fr \<longrightarrow>
         (coerced ''client_flags'' = None \<longrightarrow>
            create_connect_args imp self u =
              Inr ([], kw(''client_flags'' \<mapsto> PyInt (dflt OR fr)))) \<and>
         (coerced ''client_flags'' = Some (PyInt n) \<longrightarrow>
            create_connect_args imp self u =
              Inr ([], kw(''client_flags'' \<mapsto> PyInt (n OR fr))))) \<and>
      (imp = Inl e \<or> (imp = Inr cf \<and> (get_default cf = Inl e \<or> FOUND_ROWS cf = Inl e)) \<longrightarrow>
         create_connect_args imp self u = Inr ([], kw)))"
proof -
  assume c: "coerce_all (initial_opts u) connect_arg_types = Inr coerced"
    and d: "dbapi self = Some m"
  let ?kw = "setdefault coerced ''buffered'' (PyBool True)"
  have cf: "?kw ''client_flags'' = coerced ''client_flags''"
    by (simp add: setdefault_apply)
  have res: "create_connect_args imp self u =
      Inr ([], case merge_found_rows imp ?kw of Inl e \<Rightarrow> ?kw | Inr merged \<Rightarrow> merged)"
    using c d by (simp add: create_connect_args_def Let_def)
  have absent: "create_connect_args imp self u =
      Inr ([], ?kw(''client_flags'' \<mapsto> PyInt (dflt OR fr)))"
    if "imp = Inr cf" "get_default cf = Inr dflt" "FOUND_ROWS cf = Inr fr"
      "coerced ''client_flags'' = None"
    using that cf res by (simp add: merge_found_rows_ok)
  have present: "create_connect_args imp self u =
      Inr ([], ?kw(''client_flags'' \<mapsto> PyInt (n OR fr)))"
    if "imp = Inr cf" "get_default cf = Inr dflt" "FOUND_ROWS cf = Inr fr"
      "coerced ''client_flags'' = Some (PyInt n)"
    using that cf res by (simp add: merge_found_rows_ok)
  have fails: "create_connect_args imp self u = Inr ([], ?kw)"
    if "imp = Inl e \<or> (imp = Inr cf \<and> (get_default cf = Inl e \<or> FOUND_ROWS cf = Inl e))"
  proof -
    from merge_found_rows_lookup_fails [OF that] obtain e' where
      "merge_found_rows imp ?kw = Inl e'" by blast
    then show ?thesis by (simp add: res)
  qed
  from absent present fails show ?thesis
    unfolding Let_def by blast
qed

lemma found_rows_merge_examples:
  "returned_option
     (create_connect_args (Inr connector_ClientFlag) loaded_dialect
        \<lparr>translated_connect_args = [''user'' \<mapsto> PyStr ''scott''], query = Map.empty\<rparr>)
     ''client_flags'' = Inr (Some (PyInt 15)) \<and>
   returned_option
     (create_connect_args (Inr connector_ClientFlag) loaded_dialect
        \<lparr>translated_connect_args = [''user'' \<mapsto> PyStr ''scott''],
         query = [''client_flags'' \<mapsto> PyInt 8]\<rparr>)
     ''client_flags'' = Inr (Some (PyInt 10)) \<and>
   returned_option
     (create_connect_args (Inl ImportError) loaded_dialect
        \<lparr>translated_connect_args = [''user'' \<mapsto> PyStr ''scott''], query = Map.empty\<rparr>)
     ''client_flags'' = Inr None \<and>
   returned_option
     (create_connect_args (Inl ImportError) loaded_dialect
        \<lparr>translated_connect_args = [''user'' \<mapsto> PyStr ''scott''], query = Map.empty\<rparr>)
     ''buffered'' = Inr (Some (PyBool True)) \<and>
   returned_option
     (create_connect_args (Inl ImportError) loaded_dialect
        \<lparr>translated_connect_args = [''user'' \<mapsto> PyStr ''scott''], query = Map.empty\<rparr>)
     ''user'' = Inr (Some (PyStr ''scott''))"
proof -
  let ?u0 = "\<lparr>translated_connect_args = [''user'' \<mapsto> PyStr ''scott''], query = Map.empty\<rparr>"
  let ?u1 = "\<lparr>translated_connect_args = [''user'' \<mapsto> PyStr ''scott''],
              query = [''client_flags'' \<mapsto> PyInt 8]\<rparr>"
  have d: "dbapi loaded_dialect = Some connector_module"
    by (simp add: loaded_dialect_def)
  have c0: "coerce_all (initial_opts ?u0) connect_arg_types = Inr (initial_opts ?u0)"
    by (rule coerce_all_undeclared) (simp add: connect_arg_types_def initial_opts_def)
  have c1: "coerce_all (initial_opts ?u1) connect_arg_types = Inr (initial_opts ?u1)"
    by (rule coerce_all_undeclared) (simp add: connect_arg_types_def initial_opts_def)
  have g: "get_default connector_ClientFlag = Inr 13" "FOUND_ROWS connector_ClientFlag = Inr 2"
    by (simp_all add: connector_ClientFlag_def)
  have v0: "initial_opts ?u0 ''client_flags'' = None"
    and v1: "initial_opts ?u1 ''client_flags'' = Some (PyInt 8)"
    by (simp_all add: initial_opts_def)
  from found_rows_merge [OF c0 d, of "Inr connector_ClientFlag" connector_ClientFlag 13 2 8 ImportError]
    g v0
  have r0: "create_connect_args (Inr connector_ClientFlag) loaded_dialect ?u0 =
      Inr ([], (setdefault (initial_opts ?u0) ''buffered'' (PyBool True))
                 (''client_flags'' \<mapsto> PyInt (13 OR 2)))"
    by (simp add: Let_def)
  from found_rows_merge [OF c1 d, of "Inr connector_ClientFlag" connector_ClientFlag 13 2 8 ImportError]
    g v1
  have r1: "create_connect_args (Inr connector_ClientFlag) loaded_dialect ?u1 =
      Inr ([], (setdefault (initial_opts ?u1) ''buffered'' (PyBool True))
                 (''client_flags'' \<mapsto> PyInt (8 OR 2)))"
    by (simp add: Let_def)
  from found_rows_merge [OF c0 d, of "Inl ImportError" connector_ClientFlag 13 2 8 ImportError]
  have r2: "create_connect_args (Inl ImportError) loaded_dialect ?u0 =
      Inr ([], setdefault (initial_opts ?u0) ''buffered'' (PyBool True))"
    by (simp add: Let_def)
  show ?thesis
    by (simp add: r0 r1 r2 returned_option_def setdefault_apply initial_opts_def)
qed

end
